theory Spec2Isabelle
  imports Main "HOL-Library.Sublist"
begin

section \<open>Python values and exceptions\<close>

text \<open>
  The pipeline moves untyped Python objects around: whatever \<^verbatim>\<open>json.loads\<close> makes of a
  model response, whatever a search backend returns, whatever a configuration dictionary
  holds. Dataclass annotations are not enforced at run time, so every such object is a
  \<open>pyval\<close>. A \<^verbatim>\<open>float\<close> is kept as its \<^verbatim>\<open>repr\<close> text (the program only tests floats for
  truth and prints them); a \<^verbatim>\<open>dict\<close> is an association list in insertion order, looked up
  with \<open>map_of\<close>.
\<close>

datatype SearchAPI = PERPLEXITY | TAVILY

datatype pyval =
    PNone
  | PBool bool
  | PInt int
  | PFloat string
  | PStr string
  | PList "pyval list"
  | PDict "(string \<times> pyval) list"
  | PEnum SearchAPI

text \<open>
  Exceptions carry the class that decides which \<^verbatim>\<open>except\<close> clause catches them, and the
  text of \<^verbatim>\<open>str(e)\<close>. Every class here derives from \<^verbatim>\<open>Exception\<close>;
  \<^verbatim>\<open>JSONDecodeError\<close> derives from \<^verbatim>\<open>ValueError\<close>. \<open>OtherException\<close> stands for any
  other subclass of \<^verbatim>\<open>Exception\<close> (a network or authentication error of a collaborator).
\<close>

datatype exn_class =
  JSONDecodeError | ValueError | KeyError | TypeError | AttributeError | IndexError
  | OtherException | Exception

datatype exn = Exn exn_class string

fun exn_str :: "exn \<Rightarrow> string" where
  "exn_str (Exn c m) = m"

fun issubclass :: "exn_class \<Rightarrow> exn_class \<Rightarrow> bool" where
  "issubclass c Exception = True"
| "issubclass JSONDecodeError ValueError = True"
| "issubclass c d = (c = d)"

fun isinstance :: "exn \<Rightarrow> exn_class list \<Rightarrow> bool" where
  "isinstance (Exn c m) cs = (\<exists>d \<in> set cs. issubclass c d)"

text \<open>Truth value of an object, as \<^verbatim>\<open>if v\<close> and \<^verbatim>\<open>not v\<close> test it.\<close>

fun py_truthy :: "pyval \<Rightarrow> bool" where
  "py_truthy PNone = False"
| "py_truthy (PBool b) = b"
| "py_truthy (PInt i) = (i \<noteq> 0)"
| "py_truthy (PFloat r) = (r \<noteq> ''0.0'' \<and> r \<noteq> ''-0.0'')"
| "py_truthy (PStr s) = (s \<noteq> [])"
| "py_truthy (PList xs) = (xs \<noteq> [])"
| "py_truthy (PDict kvs) = (kvs \<noteq> [])"
| "py_truthy (PEnum a) = True"

text \<open>\<^verbatim>\<open>str.upper\<close> on the ASCII letters (the field names it is applied to are ASCII).\<close>

definition upper :: "string \<Rightarrow> string" where
  "upper s = map (\<lambda>c. if 97 \<le> (of_char c :: nat) \<and> (of_char c :: nat) \<le> 122
                       then char_of ((of_char c :: nat) - 32) else c) s"

section \<open>Configuration (configuration.py)\<close>

record Configuration =
  max_web_research_loops :: pyval
  model_name :: pyval
  search_api :: pyval
  max_store_recommendations :: pyval
  include_price_estimates :: pyval
  max_recipe_alternatives :: pyval

text \<open>The dataclass defaults.\<close>

definition default_Configuration :: Configuration where
  "default_Configuration = \<lparr>
     max_web_research_loops = PInt 3,
     model_name = PStr ''gpt-4-0125-preview'',
     search_api = PEnum TAVILY,
     max_store_recommendations = PInt 3,
     include_price_estimates = PBool True,
     max_recipe_alternatives = PInt 2 \<rparr>"

text \<open>
  A \<^verbatim>\<open>RunnableConfig\<close> is a dictionary whose \<^verbatim>\<open>"configurable"\<close> entry, when present, is a
  dictionary from names to values. The model keeps that one entry: \<open>None\<close> when the key
  is absent. The stage receives an optional \<^verbatim>\<open>RunnableConfig\<close>.
\<close>

type_synonym RunnableConfig = "(string \<rightharpoonup> pyval) option"

text \<open>\<^verbatim>\<open>os.environ.get(key, default)\<close>: the variable's string when set, else the default.\<close>

definition environ_get :: "(string \<rightharpoonup> string) \<Rightarrow> string \<Rightarrow> pyval \<Rightarrow> pyval" where
  "environ_get env k d = (case env k of Some s \<Rightarrow> PStr s | None \<Rightarrow> d)"

text \<open>\<^verbatim>\<open>configurable.get(name)\<close>: \<^verbatim>\<open>None\<close> when the name is absent.\<close>

definition configurable_get :: "(string \<rightharpoonup> pyval) \<Rightarrow> string \<Rightarrow> pyval" where
  "configurable_get c k = (case c k of Some v \<Rightarrow> v | None \<Rightarrow> PNone)"

text \<open>
  One entry of the \<^verbatim>\<open>values\<close> dictionary:
  \<^verbatim>\<open>os.environ.get(f.name.upper(), configurable.get(f.name))\<close>.
\<close>

definition config_value :: "(string \<rightharpoonup> string) \<Rightarrow> (string \<rightharpoonup> pyval) \<Rightarrow> string \<Rightarrow> pyval" where
  "config_value env c name = environ_get env (upper name) (configurable_get c name)"

text \<open>
  \<^verbatim>\<open>cls(**{k: v for k, v in values.items() if v})\<close>: a field whose value is falsy is left
  out of the constructor call and so keeps its default.
\<close>

definition config_field :: "(string \<rightharpoonup> string) \<Rightarrow> (string \<rightharpoonup> pyval) \<Rightarrow> string \<Rightarrow> pyval \<Rightarrow> pyval" where
  "config_field env c name dflt =
     (let v = config_value env c name in if py_truthy v then v else dflt)"

definition from_runnable_config :: "(string \<rightharpoonup> string) \<Rightarrow> RunnableConfig option \<Rightarrow> Configuration" where
  "from_runnable_config env config =
     (let configurable = (case config of Some (Some c) \<Rightarrow> c | _ \<Rightarrow> Map.empty) in
      \<lparr> max_web_research_loops =
          config_field env configurable ''max_web_research_loops''
            (max_web_research_loops default_Configuration),
        model_name =
          config_field env configurable ''model_name'' (model_name default_Configuration),
        search_api =
          config_field env configurable ''search_api'' (search_api default_Configuration),
        max_store_recommendations =
          config_field env configurable ''max_store_recommendations''
            (max_store_recommendations default_Configuration),
        include_price_estimates =
          config_field env configurable ''include_price_estimates''
            (include_price_estimates default_Configuration),
        max_recipe_alternatives =
          config_field env configurable ''max_recipe_alternatives''
            (max_recipe_alternatives default_Configuration) \<rparr>)"

text \<open>The fields by name, as \<^verbatim>\<open>getattr\<close> reads them.\<close>

definition field_names :: "string list" where
  "field_names = [''max_web_research_loops'', ''model_name'', ''search_api'',
     ''max_store_recommendations'', ''include_price_estimates'', ''max_recipe_alternatives'']"

definition getattr :: "Configuration \<Rightarrow> string \<Rightarrow> pyval" where
  "getattr cfg name =
     (if name = ''max_web_research_loops'' then max_web_research_loops cfg
      else if name = ''model_name'' then model_name cfg
      else if name = ''search_api'' then search_api cfg
      else if name = ''max_store_recommendations'' then max_store_recommendations cfg
      else if name = ''include_price_estimates'' then include_price_estimates cfg
      else if name = ''max_recipe_alternatives'' then max_recipe_alternatives cfg
      else PNone)"

section \<open>Python primitives the stages use\<close>

text \<open>Decimal numerals, for \<^verbatim>\<open>str\<close> of an \<^verbatim>\<open>int\<close> and for the instruction numbers.\<close>

fun digits :: "nat \<Rightarrow> string" where
  "digits n = (if n < 10 then [char_of (48 + n)] else digits (n div 10) @ [char_of (48 + n mod 10)])"

declare digits.simps [simp del]

definition show_int :: "int \<Rightarrow> string" where
  "show_int i = (if i < 0 then ''-'' @ digits (nat (- i)) else digits (nat i))"

text \<open>
  \<^verbatim>\<open>str(v)\<close>, which is also what an f-string and \<^verbatim>\<open>str.format\<close> substitute. The text of a
  list or a dictionary quotes and escapes the strings inside it by rules of \<^verbatim>\<open>repr\<close> that
  no stage depends on: it is the parameter \<open>repr\<close>.
\<close>

fun py_str :: "(pyval \<Rightarrow> string) \<Rightarrow> pyval \<Rightarrow> string" where
  "py_str repr (PStr s) = s"
| "py_str repr PNone = ''None''"
| "py_str repr (PBool b) = (if b then ''True'' else ''False'')"
| "py_str repr (PInt i) = show_int i"
| "py_str repr (PFloat r) = r"
| "py_str repr (PEnum a) =
     (case a of TAVILY \<Rightarrow> ''SearchAPI.TAVILY'' | PERPLEXITY \<Rightarrow> ''SearchAPI.PERPLEXITY'')"
| "py_str repr v = repr v"

fun type_name :: "pyval \<Rightarrow> string" where
  "type_name PNone = ''NoneType''"
| "type_name (PBool b) = ''bool''"
| "type_name (PInt i) = ''int''"
| "type_name (PFloat r) = ''float''"
| "type_name (PStr s) = ''str''"
| "type_name (PList xs) = ''list''"
| "type_name (PDict kvs) = ''dict''"
| "type_name (PEnum a) = ''SearchAPI''"

text \<open>A name between single quotes, as exception messages show it.\<close>

definition quoted :: "string \<Rightarrow> string" where
  "quoted s = [CHR 0x27] @ s @ [CHR 0x27]"

text \<open>\<^verbatim>\<open>sep.join(xs)\<close> on strings.\<close>

fun join :: "string \<Rightarrow> string list \<Rightarrow> string" where
  "join sep [] = []"
| "join sep [x] = x"
| "join sep (x # y # ys) = x @ sep @ join sep (y # ys)"

text \<open>
  \<^verbatim>\<open>str.strip()\<close>: whitespace is removed at both ends only. The whitespace characters are
  those of the ASCII range (tab to carriage return, the four separators and the space).
\<close>

definition is_space :: "char \<Rightarrow> bool" where
  "is_space c = (let n = (of_char c :: nat) in (9 \<le> n \<and> n \<le> 13) \<or> (28 \<le> n \<and> n \<le> 32))"

definition strip :: "string \<Rightarrow> string" where
  "strip s = rev (dropWhile is_space (rev (dropWhile is_space s)))"

text \<open>
  Iteration (\<^verbatim>\<open>for x in v\<close>): a list gives its elements, a dictionary its keys, a string
  its characters; anything else is not iterable.
\<close>

fun py_iter :: "pyval \<Rightarrow> exn + pyval list" where
  "py_iter (PList xs) = Inr xs"
| "py_iter (PDict kvs) = Inr (map (\<lambda>kv. PStr (fst kv)) kvs)"
| "py_iter (PStr s) = Inr (map (\<lambda>c. PStr [c]) s)"
| "py_iter v = Inl (Exn TypeError (quoted (type_name v) @ '' object is not iterable''))"

text \<open>\<^verbatim>\<open>v.get(key, default)\<close>: only a dictionary has the method.\<close>

fun py_get :: "pyval \<Rightarrow> string \<Rightarrow> pyval \<Rightarrow> exn + pyval" where
  "py_get (PDict kvs) key dflt = Inr (case map_of kvs key of Some x \<Rightarrow> x | None \<Rightarrow> dflt)"
| "py_get v key dflt =
     Inl (Exn AttributeError
       (quoted (type_name v) @ '' object has no attribute '' @ quoted ''get''))"

text \<open>\<^verbatim>\<open>v[key]\<close> with a string key.\<close>

fun py_getitem :: "pyval \<Rightarrow> string \<Rightarrow> exn + pyval" where
  "py_getitem (PDict kvs) key =
     (case map_of kvs key of Some x \<Rightarrow> Inr x | None \<Rightarrow> Inl (Exn KeyError (quoted key)))"
| "py_getitem (PList xs) key =
     Inl (Exn TypeError ''list indices must be integers or slices, not str'')"
| "py_getitem (PStr s) key =
     Inl (Exn TypeError (''string indices must be integers, not '' @ quoted ''str''))"
| "py_getitem v key =
     Inl (Exn TypeError (quoted (type_name v) @ '' object is not subscriptable''))"

text \<open>
  \<^verbatim>\<open>key in v\<close> with a string key: a key of a dictionary, an element of a list, a substring
  of a string; on anything else the test itself raises.
\<close>

fun py_contains :: "pyval \<Rightarrow> string \<Rightarrow> exn + bool" where
  "py_contains (PDict kvs) key = Inr (key \<in> fst ` set kvs)"
| "py_contains (PList xs) key = Inr (PStr key \<in> set xs)"
| "py_contains (PStr s) key = Inr (sublist key s)"
| "py_contains v key =
     Inl (Exn TypeError (''argument of type '' @ quoted (type_name v) @ '' is not iterable''))"

text \<open>
  \<^verbatim>\<open>all(key in v for key in keys)\<close>: stops at the first key that is not in \<open>v\<close>. (The source
  iterates a set, in no fixed order; the outcome does not depend on it, as \<open>py_contains\<close>
  raises for every key or for none.)
\<close>

fun all_in :: "string list \<Rightarrow> pyval \<Rightarrow> exn + bool" where
  "all_in [] v = Inr True"
| "all_in (k # ks) v =
     (case py_contains v k of Inl e \<Rightarrow> Inl e
      | Inr b \<Rightarrow> if b then all_in ks v else Inr False)"

text \<open>A comprehension whose body may raise: the first exception ends it.\<close>

fun map_exn :: "('a \<Rightarrow> exn + 'b) \<Rightarrow> 'a list \<Rightarrow> exn + 'b list" where
  "map_exn f [] = Inr []"
| "map_exn f (x # xs) =
     (case f x of Inl e \<Rightarrow> Inl e
      | Inr y \<Rightarrow> (case map_exn f xs of Inl e \<Rightarrow> Inl e | Inr ys \<Rightarrow> Inr (y # ys)))"

text \<open>\<^verbatim>\<open>sep.join(v)\<close> on an object: it must be iterable, and every item a string.\<close>

fun expect_str :: "pyval \<Rightarrow> exn + string" where
  "expect_str (PStr s) = Inr s"
| "expect_str v =
     Inl (Exn TypeError (''sequence item: expected str instance, '' @ type_name v @ '' found''))"

definition join_obj :: "string \<Rightarrow> pyval \<Rightarrow> exn + string" where
  "join_obj sep v =
     (case py_iter v of Inl e \<Rightarrow> Inl e
      | Inr items \<Rightarrow>
          (case map_exn expect_str items of Inl e \<Rightarrow> Inl e
           | Inr strs \<Rightarrow> Inr (join sep strs)))"

text \<open>
  \<^verbatim>\<open>xs[:n]\<close> on a list: a non-negative \<open>n\<close> keeps the first \<open>n\<close> elements, a negative one
  drops that many from the end, \<^verbatim>\<open>None\<close> keeps all, a \<^verbatim>\<open>bool\<close> counts as 0 or 1; any
  other bound is a type error.
\<close>

fun slice_to :: "pyval list \<Rightarrow> pyval \<Rightarrow> exn + pyval list" where
  "slice_to xs (PInt n) =
     Inr (if 0 \<le> n then take (nat n) xs else take (length xs - nat (- n)) xs)"
| "slice_to xs (PBool b) = Inr (take (if b then 1 else 0) xs)"
| "slice_to xs PNone = Inr xs"
| "slice_to xs v =
     Inl (Exn TypeError ''slice indices must be integers or None or have an __index__ method'')"

section \<open>Prompt templates (meal_prompts.py, graph.py)\<close>

text \<open>
  Each template is the function that \<^verbatim>\<open>str.format\<close> makes of it: the text with its
  placeholders filled in (a doubled brace of the source is one brace of the text).
\<close>

definition RECIPE_SEARCH_INSTRUCTIONS :: "string \<Rightarrow> string \<Rightarrow> string \<Rightarrow> string \<Rightarrow> string" where
  \<open>RECIPE_SEARCH_INSTRUCTIONS location cuisine restrictions flavor =
       ''Generate a web search query to find recipes that match the user's preferences.\<newline>''
     @ ''\<newline>''
     @ ''<USER_PREFERENCES>\<newline>''
     @ ''Location: ''
     @ location
     @ ''\<newline>''
     @ ''Cuisine: ''
     @ cuisine
     @ ''\<newline>''
     @ ''Dietary Restrictions: ''
     @ restrictions
     @ ''\<newline>''
     @ ''Flavor Profile: ''
     @ flavor
     @ ''\<newline>''
     @ ''</USER_PREFERENCES>\<newline>''
     @ ''\<newline>''
     @ ''Format your response as a JSON object with these keys:\<newline>''
     @ ''- "query": The search query string\<newline>''
     @ ''- "rationale": Brief explanation of why this query matches preferences\<newline>''
     @ ''\<newline>''
     @ ''Example:\<newline>''
     @ ''{\<newline>''
     @ ''    "query": "healthy vegetarian thai curry recipe spicy",\<newline>''
     @ ''    "rationale": "Matches user's Thai cuisine preference and vegetarian restriction"\<newline>''
     @ ''}\<newline>''\<close>

definition STORE_SEARCH_INSTRUCTIONS :: "string \<Rightarrow> string \<Rightarrow> string" where
  \<open>STORE_SEARCH_INSTRUCTIONS location ingredients =
       ''Generate a web search query to find grocery stores near the user that likely stock the needed ingredients.\<newline>''
     @ ''\<newline>''
     @ ''<LOCATION>\<newline>''
     @ location
     @ ''\<newline>''
     @ ''</LOCATION>\<newline>''
     @ ''\<newline>''
     @ ''<INGREDIENTS>\<newline>''
     @ ingredients
     @ ''\<newline>''
     @ ''</INGREDIENTS>\<newline>''
     @ ''\<newline>''
     @ ''Format your response as a JSON object with these keys:\<newline>''
     @ ''- "query": The search query string\<newline>''
     @ ''- "specialty_items": List of ingredients that might need specialty stores\<newline>''
     @ ''\<newline>''
     @ ''Example:\<newline>''
     @ ''{\<newline>''
     @ ''    "query": "asian grocery stores near downtown seattle",\<newline>''
     @ ''    "specialty_items": ["kaffir lime leaves", "galangal"]\<newline>''
     @ ''}\<newline>''\<close>

definition FINAL_REPORT_TEMPLATE :: "string \<Rightarrow> string \<Rightarrow> string \<Rightarrow> string \<Rightarrow> string" where
  \<open>FINAL_REPORT_TEMPLATE recipe_name store_recommendations ingredients instructions =
       ''# Meal Planning Report\<newline>''
     @ ''\<newline>''
     @ ''## Recipe: ''
     @ recipe_name
     @ ''\<newline>''
     @ ''\<newline>''
     @ ''### Recommended Stores:\<newline>''
     @ store_recommendations
     @ ''\<newline>''
     @ ''\<newline>''
     @ ''### Shopping List:\<newline>''
     @ ingredients
     @ ''\<newline>''
     @ ''\<newline>''
     @ ''### Cooking Instructions:\<newline>''
     @ instructions
     @ ''\<newline>''
     @ ''\<newline>''
     @ ''*All store recommendations and prices are approximate. Please call ahead to confirm availability.*\<newline>''\<close>

definition parse_prompt :: "string \<Rightarrow> string" where
  \<open>parse_prompt search_results =
       ''Extract recipe information from the search results and format it as a valid JSON object.\<newline>''
     @ ''\<newline>''
     @ ''<SEARCH_RESULTS>\<newline>''
     @ search_results
     @ ''\<newline>''
     @ ''</SEARCH_RESULTS>\<newline>''
     @ ''\<newline>''
     @ ''Return a JSON object with exactly these keys:\<newline>''
     @ ''{\<newline>''
     @ ''    "recipe_name": "Name of the recipe",\<newline>''
     @ ''    "ingredients": [\<newline>''
     @ ''        {\<newline>''
     @ ''            "quantity": "numeric amount",\<newline>''
     @ ''            "unit": "measurement unit (e.g., cup, tablespoon, etc.)",\<newline>''
     @ ''            "name": "ingredient name"\<newline>''
     @ ''        }\<newline>''
     @ ''    ],\<newline>''
     @ ''    "instructions": [\<newline>''
     @ ''        "Step 1 instruction",\<newline>''
     @ ''        "Step 2 instruction",\<newline>''
     @ ''        "etc."\<newline>''
     @ ''    ]\<newline>''
     @ ''}\<newline>''
     @ ''\<newline>''
     @ ''If no clear recipe is found in the search results, return a basic recipe structure with placeholder values.\<newline>''
     @ ''\<newline>''
     @ ''Example response:\<newline>''
     @ ''{\<newline>''
     @ ''    "recipe_name": "Spicy Vegetarian Pasta",\<newline>''
     @ ''    "ingredients": [\<newline>''
     @ ''        {\<newline>''
     @ ''            "quantity": "16",\<newline>''
     @ ''            "unit": "oz",\<newline>''
     @ ''            "name": "penne pasta"\<newline>''
     @ ''        },\<newline>''
     @ ''        {\<newline>''
     @ ''            "quantity": "2",\<newline>''
     @ ''            "unit": "tablespoons",\<newline>''
     @ ''            "name": "olive oil"\<newline>''
     @ ''        }\<newline>''
     @ ''    ],\<newline>''
     @ ''    "instructions": [\<newline>''
     @ ''        "Boil water in a large pot",\<newline>''
     @ ''        "Cook pasta according to package directions",\<newline>''
     @ ''        "Heat olive oil in a pan"\<newline>''
     @ ''    ]\<newline>''
     @ ''}''\<close>

definition store_prompt :: "string \<Rightarrow> string" where
  \<open>store_prompt search_content =
       ''Extract grocery store information from the search results.\<newline>''
     @ ''\<newline>''
     @ ''<SEARCH_RESULTS>\<newline>''
     @ search_content
     @ ''\<newline>''
     @ ''</SEARCH_RESULTS>\<newline>''
     @ ''\<newline>''
     @ ''Return a JSON array of stores in this exact format:\<newline>''
     @ ''{\<newline>''
     @ ''    "stores": [\<newline>''
     @ ''        {\<newline>''
     @ ''            "name": "Store name",\<newline>''
     @ ''            "address": "Store address",\<newline>''
     @ ''            "specialty_items": ["item1", "item2"]\<newline>''
     @ ''        }\<newline>''
     @ ''    ]\<newline>''
     @ ''}\<newline>''
     @ ''\<newline>''
     @ ''Example response:\<newline>''
     @ ''{\<newline>''
     @ ''    "stores": [\<newline>''
     @ ''        {\<newline>''
     @ ''            "name": "Whole Foods Market",\<newline>''
     @ ''            "address": "123 Main St, San Diego, CA 92101",\<newline>''
     @ ''            "specialty_items": ["organic produce", "vegan options"]\<newline>''
     @ ''        },\<newline>''
     @ ''        {\<newline>''
     @ ''            "name": "Trader Joe's",\<newline>''
     @ ''            "address": "456 Market St, San Diego, CA 92102",\<newline>''
     @ ''            "specialty_items": ["specialty pasta", "vegetarian items"]\<newline>''
     @ ''        }\<newline>''
     @ ''    ]\<newline>''
     @ ''}''\<close>

section \<open>Collaborators\<close>

text \<open>
  What the stages call and do not own: the process environment, \<^verbatim>\<open>repr\<close>, \<^verbatim>\<open>json.loads\<close>,
  the chat model (\<^verbatim>\<open>ChatOpenAI(model=..., temperature=0)\<close> builds the client, \<^verbatim>\<open>llm.invoke\<close>
  sends a system and a human message and gives the \<^verbatim>\<open>content\<close> of the reply), and the
  module \<^verbatim>\<open>utils\<close> (\<^verbatim>\<open>tavily_search\<close>, \<^verbatim>\<open>perplexity_search\<close>, \<^verbatim>\<open>format_sources\<close>). Each
  call either raises or returns; the stages are stated for every such world.
\<close>

record world =
  environ :: "string \<rightharpoonup> string"
  py_repr :: "pyval \<Rightarrow> string"
  json_loads :: "string \<Rightarrow> exn + pyval"
  ChatOpenAI :: "pyval \<Rightarrow> exn + unit"
  llm_invoke :: "pyval \<Rightarrow> string \<Rightarrow> string \<Rightarrow> exn + string"
  tavily_search :: "pyval \<Rightarrow> exn + pyval"
  perplexity_search :: "pyval \<Rightarrow> int \<Rightarrow> exn + pyval"
  format_sources :: "pyval \<Rightarrow> exn + pyval"

section \<open>Pipeline state (state.py)\<close>

record MealPlanStateInput =
  in_location :: string
  in_cuisine_preference :: "string option"
  in_dietary_restrictions :: "string list"
  in_flavor_preference :: "string option"

record MealPlanState =
  location :: string
  cuisine_preference :: "string option"
  dietary_restrictions :: "string list"
  flavor_preference :: "string option"
  recipe_name :: pyval
  ingredients :: pyval
  instructions :: pyval
  store_recommendations :: "pyval list"
  web_research_results :: "pyval list"
  sources_gathered :: "pyval list"
  final_report :: "string option"

text \<open>
  A stage returns a dictionary with the fields it sets. The graph folds it into the state:
  a field annotated with \<^verbatim>\<open>operator.add\<close> (\<open>web_research_results\<close>, \<open>sources_gathered\<close>)
  becomes the old list followed by the returned one, any other field is replaced, and a
  field the stage does not return is left as it is.
\<close>

record StateUpdate =
  upd_recipe_name :: "pyval option"
  upd_ingredients :: "pyval option"
  upd_instructions :: "pyval option"
  upd_store_recommendations :: "pyval list option"
  upd_web_research_results :: "pyval list option"
  upd_sources_gathered :: "pyval list option"
  upd_final_report :: "string option"

definition no_update :: StateUpdate where
  "no_update = \<lparr> upd_recipe_name = None, upd_ingredients = None, upd_instructions = None,
     upd_store_recommendations = None, upd_web_research_results = None,
     upd_sources_gathered = None, upd_final_report = None \<rparr>"

definition apply_update :: "MealPlanState \<Rightarrow> StateUpdate \<Rightarrow> MealPlanState" where
  "apply_update st u = st \<lparr>
     recipe_name := (case upd_recipe_name u of Some v \<Rightarrow> v | None \<Rightarrow> recipe_name st),
     ingredients := (case upd_ingredients u of Some v \<Rightarrow> v | None \<Rightarrow> ingredients st),
     instructions := (case upd_instructions u of Some v \<Rightarrow> v | None \<Rightarrow> instructions st),
     store_recommendations :=
       (case upd_store_recommendations u of Some v \<Rightarrow> v | None \<Rightarrow> store_recommendations st),
     web_research_results :=
       (case upd_web_research_results u of
          Some xs \<Rightarrow> web_research_results st @ xs | None \<Rightarrow> web_research_results st),
     sources_gathered :=
       (case upd_sources_gathered u of
          Some xs \<Rightarrow> sources_gathered st @ xs | None \<Rightarrow> sources_gathered st),
     final_report :=
       (case upd_final_report u of Some r \<Rightarrow> Some r | None \<Rightarrow> final_report st) \<rparr>"

text \<open>The state a run starts from: the input, every other field at its default.\<close>

definition initial_state :: "MealPlanStateInput \<Rightarrow> MealPlanState" where
  "initial_state inp = \<lparr>
     location = in_location inp,
     cuisine_preference = in_cuisine_preference inp,
     dietary_restrictions = in_dietary_restrictions inp,
     flavor_preference = in_flavor_preference inp,
     recipe_name = PNone, ingredients = PList [], instructions = PList [],
     store_recommendations = [], web_research_results = [], sources_gathered = [],
     final_report = None \<rparr>"

section \<open>Stage 1: search_recipes (graph.py)\<close>

text \<open>\<^verbatim>\<open>s or d\<close> on an optional string: \<^verbatim>\<open>None\<close> and the empty string give \<open>d\<close>.\<close>

definition str_or :: "string option \<Rightarrow> string \<Rightarrow> string" where
  "str_or s d = (case s of None \<Rightarrow> d | Some x \<Rightarrow> if x = [] then d else x)"

text \<open>
  The negation of \<^verbatim>\<open>not isinstance(query, dict) or 'query' not in query\<close>, with the value
  that \<^verbatim>\<open>query['query']\<close> then reads.
\<close>

fun query_of :: "pyval \<Rightarrow> pyval option" where
  "query_of (PDict kvs) = map_of kvs ''query''"
| "query_of v = None"

text \<open>The search call both stages make: the backend is chosen by \<open>search_api\<close>.\<close>

definition web_search :: "world \<Rightarrow> Configuration \<Rightarrow> pyval \<Rightarrow> exn + pyval" where
  "web_search w configurable q =
     (if search_api configurable = PEnum TAVILY then tavily_search w q
      else perplexity_search w q 0)"

text \<open>The prompt of the stage, from the four preference fields.\<close>

definition recipe_search_prompt :: "MealPlanState \<Rightarrow> string" where
  "recipe_search_prompt st =
     RECIPE_SEARCH_INSTRUCTIONS (location st)
       (str_or (cuisine_preference st) ''any'')
       (let r = join '', '' (dietary_restrictions st) in if r = [] then ''none'' else r)
       (str_or (flavor_preference st) ''any'')"

text \<open>The body of the \<^verbatim>\<open>try\<close> block.\<close>

definition search_recipes_try ::
    "world \<Rightarrow> MealPlanState \<Rightarrow> RunnableConfig option \<Rightarrow> exn + StateUpdate" where
  "search_recipes_try w st config =
     (let search_prompt = recipe_search_prompt st;
          configurable = from_runnable_config (environ w) config
      in case ChatOpenAI w (model_name configurable) of Inl e \<Rightarrow> Inl e
      | Inr llm \<Rightarrow>
     (case llm_invoke w (model_name configurable) search_prompt
             ''Generate a recipe search query:'' of Inl e \<Rightarrow> Inl e
      | Inr content \<Rightarrow>
     (case json_loads w content of Inl e \<Rightarrow> Inl e
      | Inr query \<Rightarrow>
     (case query_of query of
        None \<Rightarrow> Inl (Exn ValueError ''Invalid query format from LLM'')
      | Some q \<Rightarrow>
     (case web_search w configurable q of Inl e \<Rightarrow> Inl e
      | Inr search_results \<Rightarrow>
         if \<not> py_truthy search_results
         then Inl (Exn ValueError ''No search results found'')
         else (case format_sources w search_results of Inl e \<Rightarrow> Inl e
               | Inr sources \<Rightarrow>
                   Inr (no_update \<lparr> upd_web_research_results := Some [search_results],
                                     upd_sources_gathered := Some [sources] \<rparr>)))))))"

text \<open>The value the \<^verbatim>\<open>except\<close> block returns.\<close>

definition search_failed :: "exn \<Rightarrow> StateUpdate" where
  "search_failed e = no_update \<lparr>
     upd_web_research_results := Some [PDict [(''results'', PList [PDict [
        (''title'', PStr ''Error in search''),
        (''content'', PStr (''Failed to search for recipes: '' @ exn_str e)),
        (''url'', PStr [])]])]],
     upd_sources_gathered := Some [PStr ''Search failed''] \<rparr>"

definition search_recipes ::
    "world \<Rightarrow> MealPlanState \<Rightarrow> RunnableConfig option \<Rightarrow> exn + StateUpdate" where
  "search_recipes w st config =
     (case search_recipes_try w st config of
        Inr u \<Rightarrow> Inr u
      | Inl e \<Rightarrow>
          if isinstance e [JSONDecodeError, ValueError, Exception]
          then Inr (search_failed e) else Inl e)"

section \<open>Stage 2: parse_recipe (graph.py)\<close>

text \<open>
  One result of a batch as text. The same comprehension formats the batch in
  \<^verbatim>\<open>parse_recipe\<close> and in \<^verbatim>\<open>find_stores\<close>.
\<close>

definition result_text :: "(pyval \<Rightarrow> string) \<Rightarrow> pyval \<Rightarrow> exn + string" where
  \<open>result_text repr result =
     (case py_get result ''title'' (PStr []) of Inl e \<Rightarrow> Inl e
      | Inr title \<Rightarrow>
     (case py_get result ''content'' (PStr []) of Inl e \<Rightarrow> Inl e
      | Inr content \<Rightarrow>
     (case py_get result ''url'' (PStr []) of Inl e \<Rightarrow> Inl e
      | Inr url \<Rightarrow>
          Inr (''Title: '' @ py_str repr title @ ''\<newline>''
             @ ''Content: '' @ py_str repr content @ ''\<newline>''
             @ ''URL: '' @ py_str repr url))))\<close>

definition search_content_of :: "(pyval \<Rightarrow> string) \<Rightarrow> pyval \<Rightarrow> exn + string" where
  \<open>search_content_of repr results =
     (case (case results of PDict kvs \<Rightarrow> map_of kvs ''results'' | _ \<Rightarrow> None) of
        Some rs \<Rightarrow>
          (case py_iter rs of Inl e \<Rightarrow> Inl e
           | Inr items \<Rightarrow>
               (case map_exn (result_text repr) items of Inl e \<Rightarrow> Inl e
                | Inr texts \<Rightarrow> Inr (join ''\<newline>\<newline>'' texts)))
      | None \<Rightarrow> Inr (py_str repr results))\<close>

text \<open>The body of the \<^verbatim>\<open>try\<close> block, on the content of the model's reply.\<close>

definition parse_recipe_try :: "world \<Rightarrow> string \<Rightarrow> exn + StateUpdate" where
  "parse_recipe_try w content =
     (case json_loads w content of Inl e \<Rightarrow> Inl e
      | Inr recipe_data \<Rightarrow>
     (case all_in [''recipe_name'', ''ingredients'', ''instructions''] recipe_data of
        Inl e \<Rightarrow> Inl e
      | Inr ok \<Rightarrow>
         if \<not> ok then Inl (Exn ValueError ''Missing required keys in recipe data'')
         else
     (case py_getitem recipe_data ''recipe_name'' of Inl e \<Rightarrow> Inl e
      | Inr name \<Rightarrow>
     (case py_getitem recipe_data ''ingredients'' of Inl e \<Rightarrow> Inl e
      | Inr ingr \<Rightarrow>
     (case py_getitem recipe_data ''instructions'' of Inl e \<Rightarrow> Inl e
      | Inr instr \<Rightarrow>
          Inr (no_update \<lparr> upd_recipe_name := Some name, upd_ingredients := Some ingr,
                            upd_instructions := Some instr \<rparr>))))))"

text \<open>The fallback recipe of the \<^verbatim>\<open>except\<close> block.\<close>

definition recipe_fallback :: StateUpdate where
  "recipe_fallback = no_update \<lparr>
     upd_recipe_name := Some (PStr ''Basic Recipe (Error in parsing)''),
     upd_ingredients := Some (PList [PDict [(''quantity'', PStr ''1''),
        (''unit'', PStr ''serving''), (''name'', PStr ''ingredients not found'')]]),
     upd_instructions := Some (PList [PStr ''Recipe instructions could not be parsed'']) \<rparr>"

definition parse_recipe ::
    "world \<Rightarrow> MealPlanState \<Rightarrow> RunnableConfig option \<Rightarrow> exn + StateUpdate" where
  "parse_recipe w st config =
     (let configurable = from_runnable_config (environ w) config
      in case ChatOpenAI w (model_name configurable) of Inl e \<Rightarrow> Inl e
      | Inr llm \<Rightarrow>
     (if web_research_results st = [] then Inl (Exn IndexError ''list index out of range'')
      else
     (case search_content_of (py_repr w) (last (web_research_results st)) of Inl e \<Rightarrow> Inl e
      | Inr search_content \<Rightarrow>
     (case llm_invoke w (model_name configurable) (parse_prompt search_content)
             ''Extract and format the recipe information as JSON:'' of Inl e \<Rightarrow> Inl e
      | Inr content \<Rightarrow>
     (case parse_recipe_try w content of
        Inr u \<Rightarrow> Inr u
      | Inl e \<Rightarrow>
          if isinstance e [JSONDecodeError, ValueError] then Inr recipe_fallback
          else Inl e)))))"

section \<open>Stage 3: find_stores (graph.py)\<close>

text \<open>One line of the ingredient list of the prompt: \<^verbatim>\<open>f"- {i['name']}"\<close>.\<close>

definition ingredient_line :: "(pyval \<Rightarrow> string) \<Rightarrow> pyval \<Rightarrow> exn + string" where
  "ingredient_line repr i =
     (case py_getitem i ''name'' of Inl e \<Rightarrow> Inl e
      | Inr name \<Rightarrow> Inr (''- '' @ py_str repr name))"

text \<open>The prompt of the stage, from the location and the ingredient names.\<close>

definition store_search_prompt :: "(pyval \<Rightarrow> string) \<Rightarrow> MealPlanState \<Rightarrow> exn + string" where
  \<open>store_search_prompt repr st =
     (case py_iter (ingredients st) of Inl e \<Rightarrow> Inl e
      | Inr items \<Rightarrow>
     (case map_exn (ingredient_line repr) items of Inl e \<Rightarrow> Inl e
      | Inr ingredient_lines \<Rightarrow>
          Inr (STORE_SEARCH_INSTRUCTIONS (location st) (join ''\<newline>'' ingredient_lines))))\<close>

text \<open>
  The first half of the stage, outside any \<^verbatim>\<open>try\<close>: the query is generated, parsed and
  searched, and the results are made into text.
\<close>

definition find_stores_search ::
    "world \<Rightarrow> MealPlanState \<Rightarrow> Configuration \<Rightarrow> exn + string" where
  "find_stores_search w st configurable =
     (case store_search_prompt (py_repr w) st of Inl e \<Rightarrow> Inl e
      | Inr search_prompt \<Rightarrow>
     (case ChatOpenAI w (model_name configurable) of Inl e \<Rightarrow> Inl e
      | Inr llm \<Rightarrow>
     (case llm_invoke w (model_name configurable) search_prompt
             ''Generate a store search query:'' of Inl e \<Rightarrow> Inl e
      | Inr content \<Rightarrow>
     (case json_loads w content of Inl e \<Rightarrow> Inl e
      | Inr query \<Rightarrow>
     (case py_getitem query ''query'' of Inl e \<Rightarrow> Inl e
      | Inr q \<Rightarrow>
     (case web_search w configurable q of Inl e \<Rightarrow> Inl e
      | Inr search_results \<Rightarrow> search_content_of (py_repr w) search_results))))))"

text \<open>The loop that validates each store: the first store without all three keys raises.\<close>

fun validate_stores :: "(pyval \<Rightarrow> string) \<Rightarrow> pyval list \<Rightarrow> exn + unit" where
  "validate_stores repr [] = Inr ()"
| "validate_stores repr (store # stores) =
     (case all_in [''name'', ''address'', ''specialty_items''] store of Inl e \<Rightarrow> Inl e
      | Inr ok \<Rightarrow>
          if \<not> ok
          then Inl (Exn ValueError (''Store missing required keys: '' @ py_str repr store))
          else validate_stores repr stores)"

text \<open>The body of the \<^verbatim>\<open>try\<close> block.\<close>

definition find_stores_try :: "world \<Rightarrow> Configuration \<Rightarrow> string \<Rightarrow> exn + StateUpdate" where
  "find_stores_try w configurable search_content =
     (case llm_invoke w (model_name configurable) (store_prompt search_content)
             ''Extract and format the store information as JSON:'' of Inl e \<Rightarrow> Inl e
      | Inr content \<Rightarrow>
     (case json_loads w content of Inl e \<Rightarrow> Inl e
      | Inr store_data \<Rightarrow>
     (case (case store_data of PDict kvs \<Rightarrow> map_of kvs ''stores'' | _ \<Rightarrow> None) of
        None \<Rightarrow> Inl (Exn ValueError ''Invalid store data format'')
      | Some stores_obj \<Rightarrow>
     (case stores_obj of
        PList stores \<Rightarrow>
          (case validate_stores (py_repr w) stores of Inl e \<Rightarrow> Inl e
           | Inr ok \<Rightarrow>
          (case slice_to stores (max_store_recommendations configurable) of Inl e \<Rightarrow> Inl e
           | Inr kept \<Rightarrow> Inr (no_update \<lparr> upd_store_recommendations := Some kept \<rparr>)))
      | _ \<Rightarrow> Inl (Exn ValueError ''Stores must be a list'')))))"

text \<open>The fallback store of the \<^verbatim>\<open>except\<close> block.\<close>

definition store_fallback :: "string \<Rightarrow> StateUpdate" where
  "store_fallback loc = no_update \<lparr> upd_store_recommendations := Some [PDict [
     (''name'', PStr ''Local Grocery Store''),
     (''address'', PStr (''Search for grocery stores near '' @ loc)),
     (''specialty_items'', PList [PStr ''Unable to parse store data''])]] \<rparr>"

definition find_stores ::
    "world \<Rightarrow> MealPlanState \<Rightarrow> RunnableConfig option \<Rightarrow> exn + StateUpdate" where
  "find_stores w st config =
     (let configurable = from_runnable_config (environ w) config
      in case find_stores_search w st configurable of Inl e \<Rightarrow> Inl e
      | Inr search_content \<Rightarrow>
     (case find_stores_try w configurable search_content of
        Inr u \<Rightarrow> Inr u
      | Inl e \<Rightarrow>
          if isinstance e [JSONDecodeError, ValueError]
          then Inr (store_fallback (location st)) else Inl e))"

section \<open>Report rendering (meal_utils.py) and stage 4\<close>

definition ingredient_text :: "(pyval \<Rightarrow> string) \<Rightarrow> pyval \<Rightarrow> exn + string" where
  "ingredient_text repr item =
     (case py_get item ''quantity'' (PStr []) of Inl e \<Rightarrow> Inl e
      | Inr quantity \<Rightarrow>
     (case py_get item ''unit'' (PStr []) of Inl e \<Rightarrow> Inl e
      | Inr unit \<Rightarrow>
     (case py_get item ''name'' (PStr []) of Inl e \<Rightarrow> Inl e
      | Inr name \<Rightarrow>
          Inr (strip (''- '' @ py_str repr quantity @ '' '' @ py_str repr unit
                       @ '' '' @ py_str repr name)))))"

definition format_ingredients_list :: "(pyval \<Rightarrow> string) \<Rightarrow> pyval \<Rightarrow> exn + string" where
  \<open>format_ingredients_list repr ingrs =
     (case py_iter ingrs of Inl e \<Rightarrow> Inl e
      | Inr items \<Rightarrow>
          (case map_exn (ingredient_text repr) items of Inl e \<Rightarrow> Inl e
           | Inr formatted \<Rightarrow> Inr (join ''\<newline>'' formatted)))\<close>

definition store_text :: "(pyval \<Rightarrow> string) \<Rightarrow> pyval \<Rightarrow> exn + string" where
  \<open>store_text repr store =
     (case py_get store ''name'' (PStr []) of Inl e \<Rightarrow> Inl e
      | Inr name \<Rightarrow>
     (case py_get store ''address'' (PStr []) of Inl e \<Rightarrow> Inl e
      | Inr address \<Rightarrow>
     (case py_get store ''specialty_items'' (PList []) of Inl e \<Rightarrow> Inl e
      | Inr specialty_items \<Rightarrow>
     (let store_info = ''* '' @ py_str repr name @ '' - '' @ py_str repr address
      in if py_truthy specialty_items
         then (case join_obj '', '' specialty_items of Inl e \<Rightarrow> Inl e
               | Inr items \<Rightarrow> Inr (store_info @ ''\<newline>  Recommended for: '' @ items))
         else Inr store_info))))\<close>

definition format_store_recommendations :: "(pyval \<Rightarrow> string) \<Rightarrow> pyval list \<Rightarrow> exn + string" where
  \<open>format_store_recommendations repr stores =
     (case map_exn (store_text repr) stores of Inl e \<Rightarrow> Inl e
      | Inr formatted \<Rightarrow> Inr (join ''\<newline>'' formatted))\<close>

text \<open>\<^verbatim>\<open>f"{i+1}. {step}"\<close> for the pair \<open>(i, step)\<close> that \<^verbatim>\<open>enumerate\<close> gives.\<close>

definition instruction_text :: "(pyval \<Rightarrow> string) \<Rightarrow> nat \<times> pyval \<Rightarrow> string" where
  "instruction_text repr p = digits (fst p + 1) @ ''. '' @ py_str repr (snd p)"

definition format_instructions :: "(pyval \<Rightarrow> string) \<Rightarrow> pyval \<Rightarrow> exn + string" where
  \<open>format_instructions repr instrs =
     (case py_iter instrs of Inl e \<Rightarrow> Inl e
      | Inr steps \<Rightarrow> Inr (join ''\<newline>'' (map (instruction_text repr) (enumerate 0 steps))))\<close>

text \<open>
  The arguments of \<^verbatim>\<open>FINAL_REPORT_TEMPLATE.format\<close> are evaluated in the order written:
  recipe name, stores, ingredients, instructions.
\<close>

definition generate_final_report :: "(pyval \<Rightarrow> string) \<Rightarrow> MealPlanState \<Rightarrow> exn + string" where
  "generate_final_report repr st =
     (case format_store_recommendations repr (store_recommendations st) of Inl e \<Rightarrow> Inl e
      | Inr stores_text \<Rightarrow>
     (case format_ingredients_list repr (ingredients st) of Inl e \<Rightarrow> Inl e
      | Inr ingredients_text \<Rightarrow>
     (case format_instructions repr (instructions st) of Inl e \<Rightarrow> Inl e
      | Inr instructions_text \<Rightarrow>
          Inr (FINAL_REPORT_TEMPLATE (py_str repr (recipe_name st))
                 stores_text ingredients_text instructions_text))))"

definition create_report :: "world \<Rightarrow> MealPlanState \<Rightarrow> exn + StateUpdate" where
  "create_report w st =
     (case generate_final_report (py_repr w) st of Inl e \<Rightarrow> Inl e
      | Inr report \<Rightarrow> Inr (no_update \<lparr> upd_final_report := Some report \<rparr>))"

section \<open>The graph (graph.py) and its driver (cli.py)\<close>

text \<open>
  A node runs on the current state; its update is folded into the state, and an exception
  it raises ends the run.
\<close>

definition run_node ::
    "(MealPlanState \<Rightarrow> exn + StateUpdate) \<Rightarrow> MealPlanState \<Rightarrow> exn + MealPlanState" where
  "run_node node st = (case node st of Inl e \<Rightarrow> Inl e | Inr u \<Rightarrow> Inr (apply_update st u))"

text \<open>
  The edges: \<open>search_recipes\<close>, \<open>parse_recipe\<close>, \<open>find_stores\<close>, \<open>create_report\<close>, in
  this order. The result is the final state, whose \<open>final_report\<close> is the output.
\<close>

definition graph_invoke ::
    "world \<Rightarrow> MealPlanStateInput \<Rightarrow> RunnableConfig option \<Rightarrow> exn + MealPlanState" where
  "graph_invoke w inp config =
     (case run_node (\<lambda>st. search_recipes w st config) (initial_state inp) of Inl e \<Rightarrow> Inl e
      | Inr s1 \<Rightarrow>
     (case run_node (\<lambda>st. parse_recipe w st config) s1 of Inl e \<Rightarrow> Inl e
      | Inr s2 \<Rightarrow>
     (case run_node (\<lambda>st. find_stores w st config) s2 of Inl e \<Rightarrow> Inl e
      | Inr s3 \<Rightarrow> run_node (create_report w) s3)))"

text \<open>The configuration that \<^verbatim>\<open>run_meal_planner\<close> passes for a model name.\<close>

definition cli_config :: "pyval \<Rightarrow> RunnableConfig option" where
  "cli_config model = Some (Some [''model_name'' \<mapsto> model,
     ''max_store_recommendations'' \<mapsto> PInt 3, ''include_price_estimates'' \<mapsto> PBool True])"

definition run_meal_planner ::
    "world \<Rightarrow> string \<Rightarrow> string option \<Rightarrow> string list option \<Rightarrow> string option \<Rightarrow> pyval
      \<Rightarrow> exn + string option" where
  "run_meal_planner w loc cuisine restrictions flavor model =
     (let input_state = \<lparr> in_location = loc, in_cuisine_preference = cuisine,
            in_dietary_restrictions = (case restrictions of None \<Rightarrow> [] | Some rs \<Rightarrow> rs),
            in_flavor_preference = flavor \<rparr>
      in case graph_invoke w input_state (cli_config model) of Inl e \<Rightarrow> Inl e
         | Inr result \<Rightarrow> Inr (final_report result))"

section \<open>Sample runs\<close>

text \<open>
  Concrete collaborators on which the stages are evaluated below. The replies of the model
  are texts; \<open>sample_loads\<close> parses the texts that occur (any other text is not JSON).
\<close>

definition recipe_query_json :: string where
  \<open>recipe_query_json = ''{"query": "vegetarian thai curry recipe"}''\<close>

definition store_query_json :: string where
  \<open>store_query_json = ''{"query": "grocery stores near Seattle"}''\<close>

definition recipe_json :: string where
  \<open>recipe_json = ''{"recipe_name": "Thai Curry", "ingredients": [{"quantity": "2", "unit": "cups", "name": "coconut milk"}], "instructions": ["Simmer the curry"]}''\<close>

definition five_stores_json :: string where
  \<open>five_stores_json = ''{"stores": [{"name": "A", "address": "1 Pine St", "specialty_items": ["tofu"]}, {"name": "B", "address": "2 Pine St", "specialty_items": []}, {"name": "C", "address": "3 Pine St", "specialty_items": []}, {"name": "D", "address": "4 Pine St", "specialty_items": []}, {"name": "E", "address": "5 Pine St", "specialty_items": []}]}''\<close>

definition null_store_json :: string where
  \<open>null_store_json = ''{"stores": [null, {"name": "A Mart", "address": "1 Pine St"}]}''\<close>

definition sample_store :: "string \<Rightarrow> string \<Rightarrow> pyval list \<Rightarrow> pyval" where
  "sample_store name address items = PDict [(''name'', PStr name), (''address'', PStr address),
     (''specialty_items'', PList items)]"

definition five_stores :: "pyval list" where
  "five_stores = [sample_store ''A'' ''1 Pine St'' [PStr ''tofu''],
     sample_store ''B'' ''2 Pine St'' [], sample_store ''C'' ''3 Pine St'' [],
     sample_store ''D'' ''4 Pine St'' [], sample_store ''E'' ''5 Pine St'' []]"

definition sample_loads :: "string \<Rightarrow> exn + pyval" where
  "sample_loads s =
     (if s = recipe_query_json then Inr (PDict [(''query'', PStr ''vegetarian thai curry recipe'')])
      else if s = store_query_json then Inr (PDict [(''query'', PStr ''grocery stores near Seattle'')])
      else if s = recipe_json then
        Inr (PDict [(''recipe_name'', PStr ''Thai Curry''),
          (''ingredients'', PList [PDict [(''quantity'', PStr ''2''), (''unit'', PStr ''cups''),
             (''name'', PStr ''coconut milk'')]]),
          (''instructions'', PList [PStr ''Simmer the curry''])])
      else if s = five_stores_json then Inr (PDict [(''stores'', PList five_stores)])
      else if s = null_store_json then
        Inr (PDict [(''stores'', PList [PNone,
          PDict [(''name'', PStr ''A Mart''), (''address'', PStr ''1 Pine St'')]])])
      else if s = ''null'' then Inr PNone
      else if s = ''{}'' then Inr (PDict [])
      else Inl (Exn JSONDecodeError ''Expecting value: line 1 column 1 (char 0)''))"

definition sample_results :: pyval where
  "sample_results = PDict [(''results'', PList [PDict [(''title'', PStr ''Thai Curry''),
     (''content'', PStr ''A curry with coconut milk''),
     (''url'', PStr ''https://example.org/curry'')]])]"

text \<open>
  A world given by the four replies of the model, in the order of the calls (recipe query,
  recipe extraction, store query, store extraction) and by what a search returns.
\<close>

definition sample_world ::
    "(exn + string) \<Rightarrow> (exn + string) \<Rightarrow> (exn + string) \<Rightarrow> (exn + string) \<Rightarrow> (exn + pyval)
      \<Rightarrow> world" where
  "sample_world r1 r2 r3 r4 found = \<lparr>
     environ = Map.empty,
     py_repr = (\<lambda>v. ''<object>''),
     json_loads = sample_loads,
     ChatOpenAI = (\<lambda>model. Inr ()),
     llm_invoke = (\<lambda>model system human.
        if human = ''Generate a recipe search query:'' then r1
        else if human = ''Extract and format the recipe information as JSON:'' then r2
        else if human = ''Generate a store search query:'' then r3
        else r4),
     tavily_search = (\<lambda>q. found),
     perplexity_search = (\<lambda>q n. found),
     format_sources = (\<lambda>r. Inr (PStr ''* Thai Curry : https://example.org/curry'')) \<rparr>"

definition sample_input :: MealPlanStateInput where
  "sample_input = \<lparr> in_location = ''Seattle'', in_cuisine_preference = Some ''thai'',
     in_dietary_restrictions = [''vegetarian''], in_flavor_preference = None \<rparr>"

definition gpt4 :: pyval where
  "gpt4 = PStr ''gpt-4-0125-preview''"

text \<open>The run in which every reply is well formed.\<close>

definition good_world :: world where
  "good_world = sample_world (Inr recipe_query_json) (Inr recipe_json) (Inr store_query_json)
     (Inr five_stores_json) (Inr sample_results)"

text \<open>
  The run in which every stage degrades: no reply is JSON, except the store query, which
  the stage does not guard.
\<close>

definition degraded_world :: world where
  "degraded_world = sample_world (Inr ''not json'') (Inr ''not json'') (Inr store_query_json)
     (Inr ''not json'') (Inr sample_results)"

text \<open>The state after a failed first stage, on which the later stages are evaluated.\<close>

definition searched_state :: MealPlanState where
  "searched_state = apply_update (initial_state sample_input)
     (search_failed (Exn ValueError ''No search results found''))"

text \<open>An ingredient with its three components, as the model returns it.\<close>

definition ingredient :: "string \<Rightarrow> string \<Rightarrow> string \<Rightarrow> pyval" where
  "ingredient quantity unit name =
     PDict [(''quantity'', PStr quantity), (''unit'', PStr unit), (''name'', PStr name)]"

text \<open>A failure of a collaborator that is no \<^verbatim>\<open>ValueError\<close>: the network is down.\<close>

definition connection_error :: exn where
  "connection_error = Exn OtherException ''Connection error.''"

text \<open>What \<open>sample_loads\<close> raises on a text that is not JSON.\<close>

definition not_json_error :: exn where
  "not_json_error = Exn JSONDecodeError ''Expecting value: line 1 column 1 (char 0)''"

text \<open>The text that the stages make of \<open>sample_results\<close>.\<close>

definition sample_content :: string where
  \<open>sample_content =
     ''Title: Thai Curry\<newline>Content: A curry with coconut milk\<newline>URL: https://example.org/curry''\<close>

text \<open>
  Worlds in which the first two stages go well; the two replies of the store stage and
  the outcome of a search vary.
\<close>

definition store_world :: "(exn + string) \<Rightarrow> (exn + string) \<Rightarrow> (exn + pyval) \<Rightarrow> world" where
  "store_world r3 r4 found =
     sample_world (Inr recipe_query_json) (Inr recipe_json) r3 r4 found"

text \<open>The states after the first and after the second stage of such a run.\<close>

definition found_state :: MealPlanState where
  "found_state = apply_update (initial_state sample_input)
     (no_update \<lparr> upd_web_research_results := Some [sample_results],
        upd_sources_gathered := Some [PStr ''* Thai Curry : https://example.org/curry''] \<rparr>)"

definition recipe_state :: MealPlanState where
  "recipe_state = apply_update found_state
     (no_update \<lparr> upd_recipe_name := Some (PStr ''Thai Curry''),
        upd_ingredients := Some (PList [ingredient ''2'' ''cups'' ''coconut milk'']),
        upd_instructions := Some (PList [PStr ''Simmer the curry'']) \<rparr>)"

section \<open>Facts used throughout\<close>

lemmas config_defs =
  from_runnable_config_def config_field_def config_value_def environ_get_def
  configurable_get_def default_Configuration_def cli_config_def upper_def char_of_eq_iff

lemmas sample_text_defs =
  recipe_query_json_def store_query_json_def recipe_json_def five_stores_json_def
  null_store_json_def

lemma getattr_from_runnable_config:
  "name \<in> set field_names \<Longrightarrow>
   getattr (from_runnable_config env config) name =
     config_field env (case config of Some (Some c) \<Rightarrow> c | _ \<Rightarrow> Map.empty) name
       (getattr default_Configuration name)"
  by (auto simp add: field_names_def getattr_def from_runnable_config_def Let_def)

section \<open>Configuration resolution\<close>

text \<open>
  C3 (as amended). For every configuration field: when the environment variable named by
  upper-casing the field name is set, the field is that variable's string if it is not
  empty, and the built-in default if it is empty; when the variable is not set, the field
  is the explicit per-run override if there is one and it is truthy, and the built-in
  default otherwise. So the environment takes precedence over the per-run override, which
  takes precedence over the default.
\<close>

theorem config_resolution_order:
  assumes "name \<in> set field_names"
  shows "getattr (from_runnable_config env config) name =
     (case env (upper name) of
        Some s \<Rightarrow> if s \<noteq> [] then PStr s else getattr default_Configuration name
      | None \<Rightarrow>
         (case (case config of Some (Some c) \<Rightarrow> c name | _ \<Rightarrow> None) of
            Some v \<Rightarrow> if py_truthy v then v else getattr default_Configuration name
          | None \<Rightarrow> getattr default_Configuration name))"
  using assms
  by (simp add: getattr_from_runnable_config config_field_def config_value_def
      environ_get_def configurable_get_def Let_def split: option.splits)

text \<open>
  With \<^verbatim>\<open>MODEL_NAME\<close> set in the environment and \<open>model_name\<close> overridden for the run,
  the environment's value is the one resolved.
\<close>

theorem config_resolution_order_witness:
  "''model_name'' \<in> set field_names \<and>
   getattr (from_runnable_config [''MODEL_NAME'' \<mapsto> ''env-model'']
      (Some (Some [''model_name'' \<mapsto> PStr ''override-model'']))) ''model_name''
     = PStr ''env-model''"
  using config_resolution_order [of "''model_name''" "[''MODEL_NAME'' \<mapsto> ''env-model'']"
      "Some (Some [''model_name'' \<mapsto> PStr ''override-model''])"]
  by (simp add: field_names_def upper_def char_of_eq_iff)

text \<open>
  C3 as stated fails: the explicit per-run override does not take precedence over the
  environment variable.
\<close>

theorem override_over_environment_counterexample:
  "model_name (from_runnable_config [''MODEL_NAME'' \<mapsto> ''env-model'']
      (Some (Some [''model_name'' \<mapsto> PStr ''override-model''])))
     \<noteq> PStr ''override-model''"
  by (simp add: config_defs)

text \<open>
  C10. A field whose resolved value (the environment variable's string or, without it, the
  per-run override) is falsy keeps its built-in default.
\<close>

theorem falsy_value_discarded:
  assumes "name \<in> set field_names"
    and "\<not> py_truthy
           (config_value env (case config of Some (Some c) \<Rightarrow> c | _ \<Rightarrow> Map.empty) name)"
  shows "getattr (from_runnable_config env config) name = getattr default_Configuration name"
  using assms by (simp add: getattr_from_runnable_config config_field_def Let_def)

text \<open>
  Overriding \<open>max_store_recommendations\<close> with 0 gives the default 3, overriding
  \<open>include_price_estimates\<close> with \<^verbatim>\<open>False\<close> gives the default \<^verbatim>\<open>True\<close>, and an empty
  \<^verbatim>\<open>MODEL_NAME\<close> in the environment gives the default model.
\<close>

theorem falsy_value_discarded_witness:
  "max_store_recommendations (from_runnable_config Map.empty
      (Some (Some [''max_store_recommendations'' \<mapsto> PInt 0]))) = PInt 3 \<and>
   include_price_estimates (from_runnable_config Map.empty
      (Some (Some [''include_price_estimates'' \<mapsto> PBool False]))) = PBool True \<and>
   model_name (from_runnable_config [''MODEL_NAME'' \<mapsto> []]
      (Some (Some [''model_name'' \<mapsto> PStr ''override-model'']))) = PStr ''gpt-4-0125-preview''"
  using
    falsy_value_discarded [of "''max_store_recommendations''" Map.empty
      "Some (Some [''max_store_recommendations'' \<mapsto> PInt 0])"]
    falsy_value_discarded [of "''include_price_estimates''" Map.empty
      "Some (Some [''include_price_estimates'' \<mapsto> PBool False])"]
    falsy_value_discarded [of "''model_name''" "[''MODEL_NAME'' \<mapsto> []]"
      "Some (Some [''model_name'' \<mapsto> PStr ''override-model''])"]
  by (simp add: field_names_def getattr_def config_value_def environ_get_def
      configurable_get_def default_Configuration_def upper_def char_of_eq_iff)

section \<open>The shopping list\<close>




section \<open>Stage 1 never raises\<close>

lemmas sample_defs =
  sample_world_def sample_loads_def sample_text_defs sample_results_def sample_input_def
  good_world_def degraded_world_def gpt4_def connection_error_def not_json_error_def
  five_stores_def sample_store_def

lemma isinstance_Exception: "isinstance e [JSONDecodeError, ValueError, Exception]"
  by (cases e) simp

lemma search_recipes_catches:
  "search_recipes w st config =
     (case search_recipes_try w st config of Inr u \<Rightarrow> Inr u | Inl e \<Rightarrow> Inr (search_failed e))"
  by (simp add: search_recipes_def isinstance_Exception split: sum.splits)






section \<open>The accumulating lists\<close>

lemma search_recipes_try_appends:
  assumes "search_recipes_try w st config = Inr u"
  shows "\<exists>batch source. upd_web_research_results u = Some [batch] \<and>
           upd_sources_gathered u = Some [source]"
  using assms
  by (auto simp add: search_recipes_try_def Let_def no_update_def
      split: sum.splits option.splits if_splits)

lemma search_recipes_appends:
  assumes "search_recipes w st config = Inr u"
  shows "\<exists>batch source. upd_web_research_results u = Some [batch] \<and>
           upd_sources_gathered u = Some [source]"
proof (cases "search_recipes_try w st config")
  case (Inl e)
  with assms have "u = search_failed e"
    by (simp add: search_recipes_catches)
  then show ?thesis
    by (simp add: search_failed_def no_update_def)
next
  case (Inr u')
  with assms have "u' = u"
    by (simp add: search_recipes_catches)
  with Inr show ?thesis
    using search_recipes_try_appends [of w st config u] by simp
qed

lemma parse_recipe_try_keeps:
  assumes "parse_recipe_try w content = Inr u"
  shows "upd_web_research_results u = None \<and> upd_sources_gathered u = None"
  using assms
  by (auto simp add: parse_recipe_try_def no_update_def split: sum.splits if_splits)

lemma parse_recipe_keeps:
  assumes "parse_recipe w st config = Inr u"
  shows "upd_web_research_results u = None \<and> upd_sources_gathered u = None"
  using assms
  by (auto simp add: parse_recipe_def Let_def recipe_fallback_def no_update_def
      dest: parse_recipe_try_keeps split: sum.splits if_splits)

lemma find_stores_try_keeps:
  assumes "find_stores_try w configurable content = Inr u"
  shows "upd_web_research_results u = None \<and> upd_sources_gathered u = None"
  using assms
  by (auto simp add: find_stores_try_def no_update_def
      split: sum.splits option.splits pyval.splits)

lemma find_stores_keeps:
  assumes "find_stores w st config = Inr u"
  shows "upd_web_research_results u = None \<and> upd_sources_gathered u = None"
  using assms
  by (auto simp add: find_stores_def Let_def store_fallback_def no_update_def
      dest: find_stores_try_keeps split: sum.splits if_splits)

lemma create_report_keeps:
  assumes "create_report w st = Inr u"
  shows "upd_web_research_results u = None \<and> upd_sources_gathered u = None"
  using assms
  by (auto simp add: create_report_def no_update_def split: sum.splits)

lemma apply_update_keeps:
  assumes "upd_web_research_results u = None \<and> upd_sources_gathered u = None"
  shows "web_research_results (apply_update st u) = web_research_results st \<and>
         sources_gathered (apply_update st u) = sources_gathered st"
  using assms by (simp add: apply_update_def)

text \<open>
  C2. The first stage always returns, and folding its update into the state makes each of
  \<open>web_research_results\<close> and \<open>sources_gathered\<close> one entry longer, the entries that were
  there staying in place. Whenever one of the three later stages returns, folding its
  update into the state leaves both lists as they were.
\<close>

theorem research_lists_append_only:
  "(\<exists>u batch source. search_recipes w st config = Inr u \<and>
      web_research_results (apply_update st u) = web_research_results st @ [batch] \<and>
      sources_gathered (apply_update st u) = sources_gathered st @ [source] \<and>
      length (web_research_results (apply_update st u)) = length (web_research_results st) + 1 \<and>
      length (sources_gathered (apply_update st u)) = length (sources_gathered st) + 1) \<and>
   (parse_recipe w st config = Inr u2 \<longrightarrow>
      web_research_results (apply_update st u2) = web_research_results st \<and>
      sources_gathered (apply_update st u2) = sources_gathered st) \<and>
   (find_stores w st config = Inr u3 \<longrightarrow>
      web_research_results (apply_update st u3) = web_research_results st \<and>
      sources_gathered (apply_update st u3) = sources_gathered st) \<and>
   (create_report w st = Inr u4 \<longrightarrow>
      web_research_results (apply_update st u4) = web_research_results st \<and>
      sources_gathered (apply_update st u4) = sources_gathered st)"
proof (intro conjI impI)
  have "\<exists>u. search_recipes w st config = Inr u"
    by (simp add: search_recipes_catches split: sum.splits)
  then obtain u where u: "search_recipes w st config = Inr u" ..
  then obtain batch source where
    "upd_web_research_results u = Some [batch]" "upd_sources_gathered u = Some [source]"
    using search_recipes_appends by blast
  then have "web_research_results (apply_update st u) = web_research_results st @ [batch]"
    "sources_gathered (apply_update st u) = sources_gathered st @ [source]"
    by (simp_all add: apply_update_def)
  with u show "\<exists>u batch source. search_recipes w st config = Inr u \<and>
      web_research_results (apply_update st u) = web_research_results st @ [batch] \<and>
      sources_gathered (apply_update st u) = sources_gathered st @ [source] \<and>
      length (web_research_results (apply_update st u)) = length (web_research_results st) + 1 \<and>
      length (sources_gathered (apply_update st u)) = length (sources_gathered st) + 1"
    by (intro exI [of _ u] exI [of _ batch] exI [of _ source]) simp
next
  assume "parse_recipe w st config = Inr u2"
  then show "web_research_results (apply_update st u2) = web_research_results st"
    "sources_gathered (apply_update st u2) = sources_gathered st"
    using apply_update_keeps parse_recipe_keeps by blast+
next
  assume "find_stores w st config = Inr u3"
  then show "web_research_results (apply_update st u3) = web_research_results st"
    "sources_gathered (apply_update st u3) = sources_gathered st"
    using apply_update_keeps find_stores_keeps by blast+
next
  assume "create_report w st = Inr u4"
  then show "web_research_results (apply_update st u4) = web_research_results st"
    "sources_gathered (apply_update st u4) = sources_gathered st"
    using apply_update_keeps create_report_keeps by blast+
qed

lemmas state_defs =
  searched_state_def apply_update_def initial_state_def search_failed_def no_update_def

lemmas format_defs =
  search_content_of_def result_text_def store_search_prompt_def ingredient_line_def

lemma parse_recipe_degraded:
  "parse_recipe degraded_world searched_state (cli_config gpt4) = Inr recipe_fallback"
  by (simp add: parse_recipe_def parse_recipe_try_def sample_defs config_defs state_defs
      format_defs)

lemma find_stores_degraded:
  "find_stores degraded_world searched_state (cli_config gpt4) = Inr (store_fallback ''Seattle'')"
  by (simp add: find_stores_def find_stores_search_def find_stores_try_def web_search_def
      sample_defs config_defs state_defs format_defs)

lemma create_report_searched:
  "create_report degraded_world searched_state =
     Inr (no_update \<lparr> upd_final_report := Some (FINAL_REPORT_TEMPLATE ''None'' [] [] []) \<rparr>)"
  by (simp add: create_report_def generate_final_report_def format_store_recommendations_def
      format_ingredients_list_def format_instructions_def enumerate_eq_zip sample_defs state_defs)

text \<open>
  On the state left by a failed search, whose two lists have one entry each, the three
  later stages return and leave the lists at one entry.
\<close>

theorem research_lists_append_only_witness:
  "parse_recipe degraded_world searched_state (cli_config gpt4) = Inr recipe_fallback \<and>
   find_stores degraded_world searched_state (cli_config gpt4) =
     Inr (store_fallback ''Seattle'') \<and>
   create_report degraded_world searched_state =
     Inr (no_update \<lparr> upd_final_report := Some (FINAL_REPORT_TEMPLATE ''None'' [] [] []) \<rparr>) \<and>
   web_research_results (apply_update searched_state recipe_fallback) =
     web_research_results searched_state \<and>
   sources_gathered (apply_update searched_state (store_fallback ''Seattle'')) =
     [PStr ''Search failed''] \<and>
   length (web_research_results (apply_update searched_state
     (no_update \<lparr> upd_final_report := Some (FINAL_REPORT_TEMPLATE ''None'' [] [] []) \<rparr>))) = 1"
  using research_lists_append_only [of degraded_world searched_state "cli_config gpt4"
      recipe_fallback "store_fallback ''Seattle''"
      "no_update \<lparr> upd_final_report := Some (FINAL_REPORT_TEMPLATE ''None'' [] [] []) \<rparr>"]
    parse_recipe_degraded find_stores_degraded create_report_searched
  by (simp add: state_defs)

section \<open>The store stage: the cap\<close>





section \<open>Replies that are JSON but no dictionary\<close>

lemma parse_recipe_try_unparsable:
  assumes "json_loads w content = Inl e"
  shows "parse_recipe_try w content = Inl e"
  using assms by (simp add: parse_recipe_try_def)

lemma parse_recipe_try_missing_key:
  assumes "json_loads w content = Inr (PDict kvs)"
    and "\<not> {''recipe_name'', ''ingredients'', ''instructions''} \<subseteq> fst ` set kvs"
  shows "parse_recipe_try w content = Inl (Exn ValueError ''Missing required keys in recipe data'')"
  using assms by (auto simp add: parse_recipe_try_def)

text \<open>
  C7, at the failing input. The reply \<^verbatim>\<open>null\<close> of the extraction call is JSON and has none
  of the three keys, yet the stage does not return the fallback recipe: the membership
  test on \<^verbatim>\<open>None\<close> raises \<^verbatim>\<open>TypeError\<close>, which the \<^verbatim>\<open>except\<close> clause does not list, and
  the run ends without a report.
\<close>

theorem parse_recipe_null_reply_raises:
  "parse_recipe
     (sample_world (Inr recipe_query_json) (Inr ''null'') (Inr store_query_json)
        (Inr five_stores_json) (Inr sample_results))
     searched_state (cli_config gpt4) =
     Inl (Exn TypeError (''argument of type '' @ quoted ''NoneType'' @ '' is not iterable'')) \<and>
   graph_invoke
     (sample_world (Inr recipe_query_json) (Inr ''null'') (Inr store_query_json)
        (Inr five_stores_json) (Inr sample_results))
     sample_input (cli_config gpt4) =
     Inl (Exn TypeError (''argument of type '' @ quoted ''NoneType'' @ '' is not iterable''))"
  by (simp add: graph_invoke_def run_node_def search_recipes_def search_recipes_try_def
      web_search_def parse_recipe_def parse_recipe_try_def sample_defs config_defs state_defs
      format_defs)

lemma validate_stores_missing_key:
  assumes "\<not> {''name'', ''address'', ''specialty_items''} \<subseteq> fst ` set kvs"
  shows "validate_stores repr (PDict kvs # stores) =
     Inl (Exn ValueError (''Store missing required keys: '' @ py_str repr (PDict kvs)))"
  using assms by auto

text \<open>
  C8, at the failing input. The extracted list holds \<^verbatim>\<open>null\<close> and then a store without
  \<open>specialty_items\<close>. The stage does not return the fallback store: the validation loop
  raises \<^verbatim>\<open>TypeError\<close> on the first element, which the \<^verbatim>\<open>except\<close> clause does not list,
  and the run ends without a report.
\<close>

theorem find_stores_null_store_raises:
  "find_stores
     (sample_world (Inr recipe_query_json) (Inr recipe_json) (Inr store_query_json)
        (Inr null_store_json) (Inr sample_results))
     searched_state (cli_config gpt4) =
     Inl (Exn TypeError (''argument of type '' @ quoted ''NoneType'' @ '' is not iterable'')) \<and>
   graph_invoke
     (sample_world (Inr recipe_query_json) (Inr recipe_json) (Inr store_query_json)
        (Inr null_store_json) (Inr sample_results))
     sample_input (cli_config gpt4) =
     Inl (Exn TypeError (''argument of type '' @ quoted ''NoneType'' @ '' is not iterable''))"
  by (simp add: graph_invoke_def run_node_def search_recipes_def search_recipes_try_def
      web_search_def parse_recipe_def parse_recipe_try_def find_stores_def
      find_stores_search_def find_stores_try_def sample_defs config_defs state_defs format_defs)

section \<open>The store stage: what is caught\<close>

lemma find_stores_search_raises:
  assumes "find_stores_search w st (from_runnable_config (environ w) config) = Inl e"
  shows "find_stores w st config = Inl e"
  using assms by (simp add: find_stores_def Let_def)

lemma find_stores_try_raises:
  assumes "find_stores_search w st (from_runnable_config (environ w) config) = Inr search_content"
    and "find_stores_try w (from_runnable_config (environ w) config) search_content = Inl e"
  shows "find_stores w st config =
     (if isinstance e [JSONDecodeError, ValueError] then Inr (store_fallback (location st))
      else Inl e)"
  using assms by (simp add: find_stores_def Let_def)

lemma graph_invoke_find_stores_raises:
  assumes "run_node (\<lambda>s. search_recipes w s config) (initial_state inp) = Inr s1"
    and "run_node (\<lambda>s. parse_recipe w s config) s1 = Inr s2"
    and "find_stores w s2 config = Inl e"
  shows "graph_invoke w inp config = Inl e"
  using assms by (simp add: graph_invoke_def run_node_def)

text \<open>
  C9 (as amended). In the store stage a failure of the query-generation call, of the parse
  of its reply, of reading the \<open>query\<close> key, or of the search is not caught: the stage
  raises it, and a run that has reached the stage ends with it, without a report. In the
  later extraction step, a \<^verbatim>\<open>JSONDecodeError\<close> or \<^verbatim>\<open>ValueError\<close> (an unparseable or
  invalid reply) is caught and degraded to the fallback store, while a failure of any
  other class, such as a failure of the extraction call itself, is raised as well.
\<close>

theorem find_stores_propagation:
  "(find_stores_search w st (from_runnable_config (environ w) config) = Inl e \<longrightarrow>
      find_stores w st config = Inl e) \<and>
   (store_search_prompt (py_repr w) st = Inr prompt \<and>
    ChatOpenAI w (model_name (from_runnable_config (environ w) config)) = Inr () \<longrightarrow>
      (llm_invoke w (model_name (from_runnable_config (environ w) config)) prompt
         ''Generate a store search query:'' = Inl e \<longrightarrow>
         find_stores w st config = Inl e) \<and>
      (llm_invoke w (model_name (from_runnable_config (environ w) config)) prompt
         ''Generate a store search query:'' = Inr content \<longrightarrow>
         (json_loads w content = Inl e \<longrightarrow> find_stores w st config = Inl e) \<and>
         (json_loads w content = Inr query \<and> py_getitem query ''query'' = Inr q \<and>
          web_search w (from_runnable_config (environ w) config) q = Inl e \<longrightarrow>
            find_stores w st config = Inl e))) \<and>
   (find_stores_search w st (from_runnable_config (environ w) config) = Inr search_content \<and>
    find_stores_try w (from_runnable_config (environ w) config) search_content = Inl e \<longrightarrow>
      find_stores w st config =
        (if isinstance e [JSONDecodeError, ValueError]
         then Inr (store_fallback (location st)) else Inl e)) \<and>
   (run_node (\<lambda>s. search_recipes w s config) (initial_state inp) = Inr s1 \<and>
    run_node (\<lambda>s. parse_recipe w s config) s1 = Inr s2 \<and>
    find_stores w s2 config = Inl e \<longrightarrow>
      graph_invoke w inp config = Inl e)"
proof (intro conjI impI)
  assume "find_stores_search w st (from_runnable_config (environ w) config) = Inl e"
  then show "find_stores w st config = Inl e"
    by (rule find_stores_search_raises)
next
  assume "store_search_prompt (py_repr w) st = Inr prompt \<and>
      ChatOpenAI w (model_name (from_runnable_config (environ w) config)) = Inr ()"
    and "llm_invoke w (model_name (from_runnable_config (environ w) config)) prompt
      ''Generate a store search query:'' = Inl e"
  then show "find_stores w st config = Inl e"
    by (intro find_stores_search_raises) (simp add: find_stores_search_def)
next
  assume "store_search_prompt (py_repr w) st = Inr prompt \<and>
      ChatOpenAI w (model_name (from_runnable_config (environ w) config)) = Inr ()"
    and "llm_invoke w (model_name (from_runnable_config (environ w) config)) prompt
      ''Generate a store search query:'' = Inr content"
    and "json_loads w content = Inl e"
  then show "find_stores w st config = Inl e"
    by (intro find_stores_search_raises) (simp add: find_stores_search_def)
next
  assume "store_search_prompt (py_repr w) st = Inr prompt \<and>
      ChatOpenAI w (model_name (from_runnable_config (environ w) config)) = Inr ()"
    and "llm_invoke w (model_name (from_runnable_config (environ w) config)) prompt
      ''Generate a store search query:'' = Inr content"
    and "json_loads w content = Inr query \<and> py_getitem query ''query'' = Inr q \<and>
      web_search w (from_runnable_config (environ w) config) q = Inl e"
  then show "find_stores w st config = Inl e"
    by (intro find_stores_search_raises) (simp add: find_stores_search_def)
next
  assume "find_stores_search w st (from_runnable_config (environ w) config) = Inr search_content \<and>
      find_stores_try w (from_runnable_config (environ w) config) search_content = Inl e"
  then show "find_stores w st config =
      (if isinstance e [JSONDecodeError, ValueError]
       then Inr (store_fallback (location st)) else Inl e)"
    using find_stores_try_raises by blast
next
  assume "run_node (\<lambda>s. search_recipes w s config) (initial_state inp) = Inr s1 \<and>
      run_node (\<lambda>s. parse_recipe w s config) s1 = Inr s2 \<and>
      find_stores w s2 config = Inl e"
  then show "graph_invoke w inp config = Inl e"
    using graph_invoke_find_stores_raises by blast
qed

lemmas run_defs =
  store_world_def found_state_def recipe_state_def ingredient_def sample_content_def

lemmas stage_defs =
  search_recipes_def search_recipes_try_def web_search_def parse_recipe_def
  parse_recipe_try_def find_stores_def find_stores_search_def find_stores_try_def

lemma store_world_first_stage:
  "run_node (\<lambda>s. search_recipes (store_world r3 r4 (Inr sample_results)) s (cli_config gpt4))
     (initial_state sample_input) = Inr found_state"
  by (simp add: run_node_def stage_defs run_defs sample_defs config_defs state_defs)

lemma store_world_second_stage:
  "run_node (\<lambda>s. parse_recipe (store_world r3 r4 found) s (cli_config gpt4)) found_state =
     Inr recipe_state"
  by (simp add: run_node_def stage_defs run_defs sample_defs config_defs state_defs format_defs)

lemma store_world_prompt:
  "store_search_prompt (py_repr (store_world r3 r4 found)) searched_state =
     Inr (STORE_SEARCH_INSTRUCTIONS ''Seattle'' [])"
  by (simp add: store_search_prompt_def run_defs sample_defs state_defs)

lemma store_world_search:
  "find_stores_search (store_world (Inr store_query_json) r4 (Inr sample_results)) searched_state
     (from_runnable_config (environ (store_world (Inr store_query_json) r4 (Inr sample_results)))
        (cli_config gpt4)) = Inr sample_content"
  by (simp add: stage_defs run_defs sample_defs config_defs state_defs format_defs)

text \<open>
  The network fails at the query-generation call, the query reply is not JSON, the network
  fails at the search: the stage raises, and in the first case the run is shown to end with
  the failure. The extraction reply is not JSON: the stage returns the fallback store.
\<close>

theorem find_stores_propagation_witness:
  "find_stores (store_world (Inl connection_error) (Inr five_stores_json) (Inr sample_results))
     searched_state (cli_config gpt4) = Inl connection_error \<and>
   find_stores (store_world (Inr ''not json'') (Inr five_stores_json) (Inr sample_results))
     searched_state (cli_config gpt4) = Inl not_json_error \<and>
   find_stores (store_world (Inr store_query_json) (Inr five_stores_json) (Inl connection_error))
     searched_state (cli_config gpt4) = Inl connection_error \<and>
   find_stores (store_world (Inr store_query_json) (Inr ''not json'') (Inr sample_results))
     searched_state (cli_config gpt4) = Inr (store_fallback ''Seattle'') \<and>
   graph_invoke (store_world (Inl connection_error) (Inr five_stores_json) (Inr sample_results))
     sample_input (cli_config gpt4) = Inl connection_error"
proof -
  let ?down = "store_world (Inl connection_error) (Inr five_stores_json) (Inr sample_results)"
  let ?garbled = "store_world (Inr ''not json'') (Inr five_stores_json) (Inr sample_results)"
  let ?offline = "store_world (Inr store_query_json) (Inr five_stores_json) (Inl connection_error)"
  let ?unparsed = "store_world (Inr store_query_json) (Inr ''not json'') (Inr sample_results)"
  have client: "ChatOpenAI (store_world r3 r4 found) m = Inr ()" for r3 r4 found m
    by (simp add: store_world_def sample_world_def)
  have query: "llm_invoke (store_world r3 r4 found) m p ''Generate a store search query:'' = r3"
    for r3 r4 found m p
    by (simp add: store_world_def sample_world_def)
  have prompt: "store_search_prompt (py_repr (store_world r3 r4 found)) searched_state =
      Inr (STORE_SEARCH_INSTRUCTIONS ''Seattle'' [])" for r3 r4 found
    by (rule store_world_prompt)
  have a: "find_stores ?down searched_state (cli_config gpt4) = Inl connection_error"
    using find_stores_propagation [where w = ?down and st = searched_state
        and config = "cli_config gpt4" and e = connection_error
        and prompt = "STORE_SEARCH_INSTRUCTIONS ''Seattle'' []"]
      prompt client query
    by blast
  have "json_loads ?garbled ''not json'' = Inl not_json_error"
    by (simp add: store_world_def sample_defs)
  then have b: "find_stores ?garbled searched_state (cli_config gpt4) = Inl not_json_error"
    using find_stores_propagation [where w = ?garbled and st = searched_state
        and config = "cli_config gpt4" and e = not_json_error
        and prompt = "STORE_SEARCH_INSTRUCTIONS ''Seattle'' []" and content = "''not json''"]
      prompt client query
    by blast
  have "json_loads ?offline store_query_json =
      Inr (PDict [(''query'', PStr ''grocery stores near Seattle'')])"
    "py_getitem (PDict [(''query'', PStr ''grocery stores near Seattle'')]) ''query'' =
      Inr (PStr ''grocery stores near Seattle'')"
    "web_search ?offline (from_runnable_config (environ ?offline) (cli_config gpt4))
      (PStr ''grocery stores near Seattle'') = Inl connection_error"
    by (simp_all add: store_world_def sample_defs config_defs web_search_def)
  then have c: "find_stores ?offline searched_state (cli_config gpt4) = Inl connection_error"
    using find_stores_propagation [where w = ?offline and st = searched_state
        and config = "cli_config gpt4" and e = connection_error
        and prompt = "STORE_SEARCH_INSTRUCTIONS ''Seattle'' []" and content = store_query_json
        and query = "PDict [(''query'', PStr ''grocery stores near Seattle'')]"
        and q = "PStr ''grocery stores near Seattle''"]
      prompt client query
    by blast
  have "find_stores_try ?unparsed
      (from_runnable_config (environ ?unparsed) (cli_config gpt4)) sample_content =
      Inl not_json_error"
    by (simp add: find_stores_try_def store_world_def sample_defs)
  then have "find_stores ?unparsed searched_state (cli_config gpt4) =
      (if isinstance not_json_error [JSONDecodeError, ValueError]
       then Inr (store_fallback (location searched_state)) else Inl not_json_error)"
    using find_stores_propagation [where w = ?unparsed and st = searched_state
        and config = "cli_config gpt4" and e = not_json_error
        and search_content = sample_content] store_world_search [of "Inr ''not json''"]
    by blast
  then have d: "find_stores ?unparsed searched_state (cli_config gpt4) =
      Inr (store_fallback ''Seattle'')"
    by (simp add: not_json_error_def state_defs sample_input_def)
  have "find_stores ?down recipe_state (cli_config gpt4) = Inl connection_error"
    by (simp add: stage_defs run_defs sample_defs config_defs state_defs format_defs)
  then have e: "graph_invoke ?down sample_input (cli_config gpt4) = Inl connection_error"
    using find_stores_propagation [where w = ?down and config = "cli_config gpt4"
        and inp = sample_input and ?s1.0 = found_state and ?s2.0 = recipe_state
        and e = connection_error]
      store_world_first_stage [of "Inl connection_error" "Inr five_stores_json"]
      store_world_second_stage [of "Inl connection_error" "Inr five_stores_json"
        "Inr sample_results"]
    by blast
  from a b c d e show ?thesis by blast
qed

text \<open>
  C9 as stated fails: a failure of the extraction call itself is not caught and degraded
  to the fallback store; the stage raises it.
\<close>

theorem extraction_failure_counterexample:
  "find_stores (store_world (Inr store_query_json) (Inl connection_error) (Inr sample_results))
     searched_state (cli_config gpt4) = Inl connection_error"
  by (simp add: stage_defs run_defs sample_defs config_defs state_defs format_defs)

section \<open>The final report\<close>

lemma template_not_empty: "FINAL_REPORT_TEMPLATE a b c d \<noteq> []"
  by (simp add: FINAL_REPORT_TEMPLATE_def)

lemma sublist_between: "ys = ps @ xs @ ss \<Longrightarrow> sublist xs ys"
  by (auto simp add: sublist_def)

lemma template_recipe_header: "sublist ''## Recipe: '' (FINAL_REPORT_TEMPLATE a b c d)"
  by (rule sublist_between [where ps = \<open>''# Meal Planning Report\<newline>\<newline>''\<close>
        and ss = \<open>a @ ''\<newline>\<newline>### Recommended Stores:\<newline>'' @ b
          @ ''\<newline>\<newline>### Shopping List:\<newline>'' @ c
          @ ''\<newline>\<newline>### Cooking Instructions:\<newline>'' @ d
          @ ''\<newline>\<newline>*All store recommendations and prices are approximate. Please call ahead to confirm availability.*\<newline>''\<close>])
    (simp add: FINAL_REPORT_TEMPLATE_def)

lemma template_stores_header:
  "sublist ''### Recommended Stores:'' (FINAL_REPORT_TEMPLATE a b c d)"
  by (rule sublist_between [where
        ps = \<open>''# Meal Planning Report\<newline>\<newline>## Recipe: '' @ a @ ''\<newline>\<newline>''\<close>
        and ss = \<open>''\<newline>'' @ b
          @ ''\<newline>\<newline>### Shopping List:\<newline>'' @ c
          @ ''\<newline>\<newline>### Cooking Instructions:\<newline>'' @ d
          @ ''\<newline>\<newline>*All store recommendations and prices are approximate. Please call ahead to confirm availability.*\<newline>''\<close>])
    (simp add: FINAL_REPORT_TEMPLATE_def)

lemma template_shopping_header:
  "sublist ''### Shopping List:'' (FINAL_REPORT_TEMPLATE a b c d)"
  by (rule sublist_between [where
        ps = \<open>''# Meal Planning Report\<newline>\<newline>## Recipe: '' @ a
          @ ''\<newline>\<newline>### Recommended Stores:\<newline>'' @ b @ ''\<newline>\<newline>''\<close>
        and ss = \<open>''\<newline>'' @ c
          @ ''\<newline>\<newline>### Cooking Instructions:\<newline>'' @ d
          @ ''\<newline>\<newline>*All store recommendations and prices are approximate. Please call ahead to confirm availability.*\<newline>''\<close>])
    (simp add: FINAL_REPORT_TEMPLATE_def)

lemma template_cooking_header:
  "sublist ''### Cooking Instructions:'' (FINAL_REPORT_TEMPLATE a b c d)"
  by (rule sublist_between [where
        ps = \<open>''# Meal Planning Report\<newline>\<newline>## Recipe: '' @ a
          @ ''\<newline>\<newline>### Recommended Stores:\<newline>'' @ b
          @ ''\<newline>\<newline>### Shopping List:\<newline>'' @ c @ ''\<newline>\<newline>''\<close>
        and ss = \<open>''\<newline>'' @ d
          @ ''\<newline>\<newline>*All store recommendations and prices are approximate. Please call ahead to confirm availability.*\<newline>''\<close>])
    (simp add: FINAL_REPORT_TEMPLATE_def)

lemma create_report_template:
  assumes "create_report w st = Inr u"
  shows "\<exists>a b c d. upd_final_report u = Some (FINAL_REPORT_TEMPLATE a b c d)"
proof -
  from assms obtain report where report: "generate_final_report (py_repr w) st = Inr report"
    and u: "upd_final_report u = Some report"
    by (auto simp add: create_report_def no_update_def split: sum.splits)
  from report have "\<exists>b c d.
      report = FINAL_REPORT_TEMPLATE (py_str (py_repr w) (recipe_name st)) b c d"
    by (auto simp add: generate_final_report_def split: sum.splits intro!: exI)
  with u show ?thesis
    by (elim exE) (intro exI, simp)
qed

lemma graph_invoke_ends_with_report:
  assumes "graph_invoke w inp config = Inr st"
  shows "\<exists>s3 u. create_report w s3 = Inr u \<and> st = apply_update s3 u"
  using assms
  by (auto simp add: graph_invoke_def run_node_def split: sum.splits)

text \<open>
  C1 (as amended). Whenever the run is not ended by an exception that a stage lets
  through, it ends with a final report that is not empty and contains the four section
  headers, whether or not stages degraded to their fallback values.
\<close>

theorem completed_run_has_report:
  assumes "graph_invoke w inp config = Inr st"
  shows "\<exists>report. final_report st = Some report \<and> report \<noteq> [] \<and>
           sublist ''## Recipe: '' report \<and>
           sublist ''### Recommended Stores:'' report \<and>
           sublist ''### Shopping List:'' report \<and>
           sublist ''### Cooking Instructions:'' report"
proof -
  from assms obtain s3 u where "create_report w s3 = Inr u" and st: "st = apply_update s3 u"
    using graph_invoke_ends_with_report by blast
  then obtain a b c d where "upd_final_report u = Some (FINAL_REPORT_TEMPLATE a b c d)"
    using create_report_template by blast
  with st have "final_report st = Some (FINAL_REPORT_TEMPLATE a b c d)"
    by (simp add: apply_update_def)
  then show ?thesis
    by (intro exI [of _ "FINAL_REPORT_TEMPLATE a b c d"] conjI)
      (simp_all add: template_not_empty template_recipe_header template_stores_header
        template_shopping_header template_cooking_header)
qed

lemma degraded_run_completes:
  "\<exists>st. graph_invoke degraded_world sample_input (cli_config gpt4) = Inr st"
  by (simp add: graph_invoke_def run_node_def stage_defs create_report_def
      generate_final_report_def format_store_recommendations_def store_text_def join_obj_def
      format_ingredients_list_def ingredient_text_def format_instructions_def
      recipe_fallback_def store_fallback_def sample_defs config_defs state_defs format_defs)

text \<open>
  The run in which all three guarded replies are unparseable and every stage falls back
  ends with such a report.
\<close>

theorem completed_run_has_report_witness:
  "\<exists>st report. graph_invoke degraded_world sample_input (cli_config gpt4) = Inr st \<and>
     final_report st = Some report \<and> report \<noteq> [] \<and>
     sublist ''## Recipe: '' report \<and>
     sublist ''### Recommended Stores:'' report \<and>
     sublist ''### Shopping List:'' report \<and>
     sublist ''### Cooking Instructions:'' report"
proof -
  obtain st where run: "graph_invoke degraded_world sample_input (cli_config gpt4) = Inr st"
    using degraded_run_completes ..
  from completed_run_has_report [OF run] obtain report where
    "final_report st = Some report \<and> report \<noteq> [] \<and>
     sublist ''## Recipe: '' report \<and>
     sublist ''### Recommended Stores:'' report \<and>
     sublist ''### Shopping List:'' report \<and>
     sublist ''### Cooking Instructions:'' report" ..
  with run show ?thesis
    by (intro exI [of _ st] exI [of _ report]) simp
qed

text \<open>
  C1 as stated fails: for a valid input (the location \<open>Seattle\<close>), when the network fails
  at the recipe-extraction call the second stage raises and the run produces no report.
\<close>

theorem run_without_report_counterexample:
  "in_location sample_input \<noteq> [] \<and>
   graph_invoke
     (sample_world (Inr recipe_query_json) (Inl connection_error) (Inr store_query_json)
        (Inr five_stores_json) (Inr sample_results))
     sample_input (cli_config gpt4) = Inl connection_error"
  by (simp add: graph_invoke_def run_node_def stage_defs sample_defs config_defs state_defs
      format_defs)

end
